theory Spec2Isabelle
  imports Main
begin

section \<open>Checkpoint store: \<^verbatim>\<open>connector/state_manager.py\<close>\<close>

text \<open>
  \<^verbatim>\<open>StateManager.state\<close> is a dictionary from table names to dictionaries with the
  keys \<^verbatim>\<open>last_sync_version\<close> and \<^verbatim>\<open>last_sync_time\<close>. Either key may be absent in a document
  read from disk, so both fields are optional. Versions are Python integers; the time is the
  ISO text of \<^verbatim>\<open>datetime.now()\<close>, passed in as an argument wherever the source reads the
  clock.
\<close>

record table_state =
  last_sync_version :: "int option"
  last_sync_time :: "string option"

type_synonym sync_state = "string \<rightharpoonup> table_state"

text \<open>
  What is on disk under \<^verbatim>\<open>replication_state.json\<close>: no file, a file that \<^verbatim>\<open>open\<close> or
  \<^verbatim>\<open>json.load\<close> raises on, or a document.
\<close>

datatype file_content = Missing | Unreadable | Document sync_state

text \<open>
  How the next write of the file goes: it succeeds, \<^verbatim>\<open>open(..., 'w')\<close> raises (the file keeps
  its content), or \<^verbatim>\<open>json.dump\<close> raises after \<^verbatim>\<open>open\<close> has truncated the file (a partial
  document is left behind).
\<close>

datatype write_outcome = Write_Ok | Open_Raises | Dump_Raises

record state_manager =
  state :: sync_state
  state_file :: file_content
  next_write :: write_outcome

text \<open>\<^verbatim>\<open>_load_state\<close>: a missing file and a file that cannot be read both give \<^verbatim>\<open>{}\<close>.\<close>

fun load_state :: "file_content \<Rightarrow> sync_state" where
  "load_state Missing = Map.empty"
| "load_state Unreadable = Map.empty"
| "load_state (Document d) = d"

definition StateManager :: "file_content \<Rightarrow> write_outcome \<Rightarrow> state_manager" where
  "StateManager f w = \<lparr>state = load_state f, state_file = f, next_write = w\<rparr>"

text \<open>\<^verbatim>\<open>_save_state\<close>: every exception is logged and swallowed; nothing is returned.\<close>

definition save_state :: "state_manager \<Rightarrow> state_manager" where
  "save_state sm =
     (case next_write sm of
        Write_Ok \<Rightarrow> sm\<lparr>state_file := Document (state sm)\<rparr>
      | Open_Raises \<Rightarrow> sm
      | Dump_Raises \<Rightarrow> sm\<lparr>state_file := Unreadable\<rparr>)"

text \<open>\<^verbatim>\<open>get_last_sync_version\<close>: \<^verbatim>\<open>self.state.get(table_name, {}).get('last_sync_version', 0)\<close>.\<close>

definition get_last_sync_version :: "state_manager \<Rightarrow> string \<Rightarrow> int" where
  "get_last_sync_version sm table_name =
     (case state sm table_name of
        None \<Rightarrow> 0
      | Some table_state \<Rightarrow>
          (case last_sync_version table_state of None \<Rightarrow> 0 | Some v \<Rightarrow> v))"

text \<open>
  \<^verbatim>\<open>update_sync_version\<close>: creates the entry when the table is unseen, sets both keys, saves.
  The argument \<open>now\<close> is \<^verbatim>\<open>datetime.now().isoformat()\<close>.
\<close>

definition update_sync_version :: "state_manager \<Rightarrow> string \<Rightarrow> int \<Rightarrow> string \<Rightarrow> state_manager" where
  "update_sync_version sm table_name version now =
     (let entry = (case state sm table_name of
                     None \<Rightarrow> \<lparr>last_sync_version = None, last_sync_time = None\<rparr>
                   | Some e \<Rightarrow> e);
          entry' = entry\<lparr>last_sync_version := Some version, last_sync_time := Some now\<rparr>
      in save_state (sm\<lparr>state := (state sm)(table_name \<mapsto> entry')\<rparr>))"

section \<open>Source connector: \<^verbatim>\<open>connector/sql_server_connector.py\<close>\<close>

text \<open>
  The source database is read through \<^verbatim>\<open>execute_query\<close>, which returns the rows of a query
  and turns every exception into the empty list. A pass sees one snapshot of the source: the
  rows each query of the connector returns, per table. Rows are of an arbitrary type \<open>'r\<close>,
  key values of a linearly ordered type \<open>'k\<close>.

  \<^item> \<open>sql_reachable\<close>: whether \<^verbatim>\<open>pyodbc.connect\<close> succeeds;
  \<^item> \<open>tracking_rows\<close>: the \<^verbatim>\<open>IsChangeTrackingEnabled\<close> column of the tracking query;
  \<^item> \<open>version_rows\<close>: the rows of \<^verbatim>\<open>SELECT CHANGE_TRACKING_CURRENT_VERSION()\<close>;
  \<^item> \<open>schema_rows\<close>: column name, type name and nullability per column, in column order
    (length, precision and scale are fetched too and never read);
  \<^item> \<open>primary_key_rows\<close>: the primary-key column names, ordered by key ordinal;
  \<^item> \<open>count_rows\<close>: the rows of \<^verbatim>\<open>SELECT COUNT(*)\<close>;
  \<^item> \<open>table_rows\<close>: the content of the table, in the order an unordered scan returns it;
  \<^item> \<open>cell\<close>: the value of a row in a column;
  \<^item> \<open>change_rows\<close>: the rows of the two \<^verbatim>\<open>CHANGETABLE\<close> queries for a table and a version
    (inserted or updated rows, deleted keys); \<open>None\<close> when the \<^verbatim>\<open>try\<close> block around them raises.
\<close>

record ('r, 'k) sql_server =
  sql_reachable :: bool
  tracking_rows :: "string \<Rightarrow> bool list"
  version_rows :: "int list"
  schema_rows :: "string \<Rightarrow> (string \<times> string \<times> bool) list"
  primary_key_rows :: "string \<Rightarrow> string list"
  count_rows :: "string \<Rightarrow> nat list"
  table_rows :: "string \<Rightarrow> 'r list"
  cell :: "string \<Rightarrow> 'r \<Rightarrow> 'k"
  change_rows :: "string \<Rightarrow> int \<Rightarrow> ('r list \<times> 'r list) option"

text \<open>A column dictionary (\<open>type_name\<close> is its key \<^verbatim>\<open>type\<close>); the key \<^verbatim>\<open>is_primary_key\<close> is absent (falsy) until the replicator sets it.\<close>

record column =
  name :: string
  type_name :: string
  is_nullable :: bool
  is_primary_key :: bool

definition get_table_schema :: "('r, 'k) sql_server \<Rightarrow> string \<Rightarrow> column list" where
  "get_table_schema src table_name =
     map (\<lambda>(column_name, data_type, nullable).
            \<lparr>name = column_name, type_name = data_type, is_nullable = nullable,
             is_primary_key = False\<rparr>)
         (schema_rows src table_name)"

definition is_change_tracking_enabled :: "('r, 'k) sql_server \<Rightarrow> string \<Rightarrow> bool" where
  "is_change_tracking_enabled src table_name =
     (case tracking_rows src table_name of [] \<Rightarrow> False | enabled # _ \<Rightarrow> enabled)"

text \<open>A failed version query is reported as version 0.\<close>

definition get_change_tracking_current_version :: "('r, 'k) sql_server \<Rightarrow> int" where
  "get_change_tracking_current_version src =
     (case version_rows src of [] \<Rightarrow> 0 | v # _ \<Rightarrow> v)"

definition get_primary_key_columns :: "('r, 'k) sql_server \<Rightarrow> string \<Rightarrow> string list" where
  "get_primary_key_columns src table_name = primary_key_rows src table_name"

subsection \<open>Full scan with a primary-key cursor\<close>

text \<open>
  The batch query of \<^verbatim>\<open>_get_all_data_with_pk\<close>:
  \<^verbatim>\<open>SELECT TOP batch_size * FROM t [WHERE pk > ?] ORDER BY pk\<close>, with no \<^verbatim>\<open>WHERE\<close> clause while
  \<^verbatim>\<open>last_pk_value\<close> is \<^verbatim>\<open>None\<close>.
\<close>

definition after_cursor :: "('r \<Rightarrow> 'k::linorder) \<Rightarrow> 'k option \<Rightarrow> 'r \<Rightarrow> bool" where
  "after_cursor key last_pk_value r =
     (case last_pk_value of None \<Rightarrow> True | Some v \<Rightarrow> v < key r)"

definition pk_batch_query ::
  "('r \<Rightarrow> 'k::linorder) \<Rightarrow> nat \<Rightarrow> 'r list \<Rightarrow> 'k option \<Rightarrow> 'r list" where
  "pk_batch_query key batch_size rows last_pk_value =
     take batch_size (sort_key key (filter (after_cursor key last_pk_value) rows))"

lemma after_last_shrinks:
  assumes "pk_batch_query key b rows c \<noteq> []"
  shows "length (filter (after_cursor key (Some (key (last (pk_batch_query key b rows c))))) rows)
       < length (filter (after_cursor key c) rows)"
proof -
  let ?batch = "pk_batch_query key b rows c"
  let ?r = "last ?batch"
  have "?r \<in> set ?batch" using assms by simp
  then have "?r \<in> set (sort_key key (filter (after_cursor key c) rows))"
    unfolding pk_batch_query_def by (rule in_set_takeD)
  then have r: "?r \<in> set rows" "after_cursor key c ?r" by auto
  have sub: "\<And>x. after_cursor key (Some (key ?r)) x \<Longrightarrow> after_cursor key c x"
    using r(2) by (auto simp: after_cursor_def split: option.splits)
  have eq: "filter (after_cursor key (Some (key ?r))) rows
      = filter (after_cursor key (Some (key ?r))) (filter (after_cursor key c) rows)"
    using sub by (auto intro: filter_cong)
  have "?r \<in> set (filter (after_cursor key c) rows)" using r by simp
  moreover have "\<not> after_cursor key (Some (key ?r)) ?r" by (simp add: after_cursor_def)
  ultimately have
    "length (filter (after_cursor key (Some (key ?r))) (filter (after_cursor key c) rows))
      < length (filter (after_cursor key c) rows)"
    by (rule length_filter_less)
  with eq show ?thesis by simp
qed

text \<open>
  The \<^verbatim>\<open>while True\<close> loop of \<^verbatim>\<open>_get_all_data_with_pk\<close>. Besides \<^verbatim>\<open>all_data\<close> it returns the
  number of rows each batch query it issued came back with, in order. The loop ends because
  every full batch moves the cursor past at least one more row.
\<close>

function pk_loop ::
  "('r \<Rightarrow> 'k::linorder) \<Rightarrow> nat \<Rightarrow> 'r list \<Rightarrow> 'k option \<Rightarrow> 'r list \<Rightarrow> nat list
     \<Rightarrow> 'r list \<times> nat list" where
  "pk_loop key batch_size rows last_pk_value all_data sizes =
     (let batch = pk_batch_query key batch_size rows last_pk_value in
      if batch = [] then (all_data, sizes @ [0])
      else if length batch < batch_size then (all_data @ batch, sizes @ [length batch])
      else pk_loop key batch_size rows (Some (key (last batch))) (all_data @ batch)
             (sizes @ [length batch]))"
  by pat_completeness auto
termination
  by (relation "measure (\<lambda>(key, b, rows, c, acc, log). length (filter (after_cursor key c) rows))")
     (auto intro: after_last_shrinks)

declare pk_loop.simps [simp del]

definition get_all_data_with_pk ::
  "('r \<Rightarrow> 'k::linorder) \<Rightarrow> nat \<Rightarrow> 'r list \<Rightarrow> 'r list \<times> nat list" where
  "get_all_data_with_pk key batch_size rows = pk_loop key batch_size rows None [] []"

subsection \<open>Full scan by offset\<close>

text \<open>
  \<^verbatim>\<open>range(0, total_rows, batch_size)\<close> for a positive step; a step of 0 raises \<^verbatim>\<open>ValueError\<close>.
\<close>

definition py_range :: "nat \<Rightarrow> nat \<Rightarrow> nat list" where
  "py_range stop step = map (\<lambda>i. i * step) [0..<(stop + step - 1) div step]"

fun offset_loop :: "'r list \<Rightarrow> nat \<Rightarrow> nat list \<Rightarrow> 'r list \<Rightarrow> 'r list" where
  "offset_loop rows batch_size [] all_data = all_data"
| "offset_loop rows batch_size (offset # offsets) all_data =
     (let batch = take batch_size (drop offset rows) in
      if batch = [] then all_data
      else offset_loop rows batch_size offsets (all_data @ batch))"

text \<open>\<open>None\<close> is the \<^verbatim>\<open>ValueError\<close> of \<^verbatim>\<open>range\<close>.\<close>

definition get_all_data_with_offset :: "'r list \<Rightarrow> nat \<Rightarrow> nat \<Rightarrow> 'r list option" where
  "get_all_data_with_offset rows batch_size total_rows =
     (if batch_size = 0 then None
      else Some (offset_loop rows batch_size (py_range total_rows batch_size) []))"

text \<open>
  \<^verbatim>\<open>get_all_data\<close>: an empty result of the count query (also a failed one) means an empty
  table; the scan is keyed on the first primary-key column when there is one; any exception
  gives the empty frame.
\<close>

definition get_all_data :: "('r, 'k::linorder) sql_server \<Rightarrow> string \<Rightarrow> nat \<Rightarrow> 'r list" where
  "get_all_data src table_name batch_size =
     (let total_rows = (case count_rows src table_name of [] \<Rightarrow> 0 | n # _ \<Rightarrow> n) in
      if total_rows = 0 then []
      else (case get_primary_key_columns src table_name of
              [] \<Rightarrow>
                (case get_all_data_with_offset (table_rows src table_name) batch_size total_rows of
                   None \<Rightarrow> []
                 | Some all_data \<Rightarrow> all_data)
            | pk_column # _ \<Rightarrow>
                fst (get_all_data_with_pk (cell src pk_column) batch_size
                       (table_rows src table_name))))"

subsection \<open>Changes since a version\<close>

text \<open>
  \<^verbatim>\<open>get_changed_data\<close> returns the changed rows, the deleted keys and the current version.
  Version 0 with two empty frames is how it reports a failure. The parameter \<open>since_version\<close>
  is \<^verbatim>\<open>last_sync_version\<close> in the source.
\<close>

definition get_changed_data ::
  "('r, 'k) sql_server \<Rightarrow> string \<Rightarrow> int \<Rightarrow> 'r list \<times> 'r list \<times> int" where
  "get_changed_data src table_name since_version =
     (if \<not> is_change_tracking_enabled src table_name then ([], [], 0)
      else
        let current_version = get_change_tracking_current_version src in
        if current_version \<le> since_version then ([], [], current_version)
        else if get_primary_key_columns src table_name = [] then ([], [], 0)
        else (case change_rows src table_name since_version of
                None \<Rightarrow> ([], [], 0)
              | Some (changed_df, deleted_df) \<Rightarrow> (changed_df, deleted_df, current_version)))"

section \<open>Target connector: \<^verbatim>\<open>connector/big_query_connector.py\<close>\<close>

datatype bq_type = STRING | INTEGER | NUMERIC | FLOAT | DATETIME | TIME | BOOLEAN | BYTES

datatype bq_mode = NULLABLE | REQUIRED

record schema_field =
  field_name :: string
  field_type :: bq_type
  mode :: bq_mode

text \<open>A table of the dataset: its schema, its clustering fields (\<open>None\<close> when unset), its rows.\<close>

record 'r bq_table =
  schema :: "schema_field list"
  clustering_fields :: "string list option"
  table_data :: "'r list"

text \<open>
  The warehouse: the tables of the dataset, and how the client calls of this pass go.
  \<^item> \<open>bq_reachable\<close>: whether \<^verbatim>\<open>connect\<close> succeeds;
  \<^item> \<open>get_table_raises\<close>: \<^verbatim>\<open>client.get_table\<close> raises for another reason than a missing table;
  \<^item> \<open>create_raises\<close>: the \<^verbatim>\<open>try\<close> block of \<^verbatim>\<open>create_table\<close> raises;
  \<^item> \<open>load_raises\<close>: the \<^verbatim>\<open>try\<close> block of \<^verbatim>\<open>load_dataframe\<close> raises. The module never imports
    \<^verbatim>\<open>io\<close> (only the script \<^verbatim>\<open>main.py\<close> does, in its own namespace), so in the repository as it
    stands \<^verbatim>\<open>io.BytesIO\<close> raises \<^verbatim>\<open>NameError\<close> there for every non-empty frame; the model keeps
    the successful branch for the code with the import in place, and no example below
    relies on it;
  \<^item> \<open>query_raises\<close>: the \<^verbatim>\<open>try\<close> block of \<^verbatim>\<open>delete_rows\<close> raises;
  \<^item> \<open>row_matches k r\<close>: the stored row \<open>r\<close> satisfies the conjunction of key equalities that
    \<^verbatim>\<open>delete_rows\<close> builds from the key row \<open>k\<close>.
\<close>

record 'r bigquery =
  bq_reachable :: bool
  tables :: "string \<rightharpoonup> 'r bq_table"
  get_table_raises :: "string \<Rightarrow> bool"
  create_raises :: "string \<Rightarrow> bool"
  load_raises :: "string \<Rightarrow> bool"
  query_raises :: "string \<Rightarrow> bool"
  row_matches :: "'r \<Rightarrow> 'r \<Rightarrow> bool"

text \<open>\<^verbatim>\<open>table_exists\<close>: any exception of the lookup counts as a missing table.\<close>

definition table_exists :: "'r bigquery \<Rightarrow> string \<Rightarrow> bool" where
  "table_exists bq table_name =
     (\<not> get_table_raises bq table_name \<and> tables bq table_name \<noteq> None)"

text \<open>
  \<^verbatim>\<open>str.lower\<close> on code points below 256: the capital letters are 65 to 90 and 192 to 222
  without the multiplication sign 215, and each has its small letter 32 places further on.
\<close>

definition lower_char :: "char \<Rightarrow> char" where
  "lower_char c =
     (if (65 \<le> (of_char c :: nat) \<and> (of_char c :: nat) \<le> 90) \<or>
         (192 \<le> (of_char c :: nat) \<and> (of_char c :: nat) \<le> 222 \<and> (of_char c :: nat) \<noteq> 215)
      then char_of (of_char c + 32 :: nat) else c)"

definition lower :: "string \<Rightarrow> string" where
  "lower s = map lower_char s"

text \<open>The type table of \<^verbatim>\<open>_convert_schema\<close>; an unknown type is logged and becomes \<open>STRING\<close>.\<close>

definition convert_type :: "string \<Rightarrow> bq_type" where
  "convert_type sql_type =
     (if sql_type \<in> set [''char'', ''varchar'', ''nvarchar'', ''nchar'', ''text'', ''ntext'']
        then STRING
      else if sql_type \<in> set [''int'', ''smallint'', ''tinyint''] then INTEGER
      else if sql_type = ''bigint'' then INTEGER
      else if sql_type \<in> set [''decimal'', ''numeric'', ''money'', ''smallmoney''] then NUMERIC
      else if sql_type \<in> set [''float'', ''real''] then FLOAT
      else if sql_type \<in> set [''date'', ''datetime'', ''datetime2'', ''smalldatetime'']
        then DATETIME
      else if sql_type = ''time'' then TIME
      else if sql_type = ''bit'' then BOOLEAN
      else if sql_type \<in> set [''binary'', ''varbinary'', ''image''] then BYTES
      else if sql_type = ''uniqueidentifier'' then STRING
      else STRING)"

definition convert_schema :: "column list \<Rightarrow> schema_field list" where
  "convert_schema sql_schema =
     map (\<lambda>column.
            \<lparr>field_name = name column,
             field_type = convert_type (lower (type_name column)),
             mode = (if is_nullable column then NULLABLE else REQUIRED)\<rparr>)
         sql_schema"

text \<open>
  \<^verbatim>\<open>create_table\<close>: the clustering fields are the names of the columns flagged
  \<^verbatim>\<open>is_primary_key\<close>, in the order of \<^verbatim>\<open>schema_columns\<close>, cut to four. Creating a table that
  is already there raises in the client, like any other failure of the call.
\<close>

definition create_table :: "'r bigquery \<Rightarrow> string \<Rightarrow> column list \<Rightarrow> bool \<times> 'r bigquery" where
  "create_table bq table_name schema_columns =
     (let bq_schema = convert_schema schema_columns;
          pk_columns = map name (filter is_primary_key schema_columns);
          clustering = (if pk_columns \<noteq> [] then Some (take 4 pk_columns) else None)
      in if create_raises bq table_name \<or> tables bq table_name \<noteq> None then (False, bq)
         else (True, bq\<lparr>tables := (tables bq)(table_name \<mapsto>
                 \<lparr>schema = bq_schema, clustering_fields = clustering, table_data = []\<rparr>)\<rparr>))"

datatype write_disposition = WRITE_TRUNCATE | WRITE_APPEND

text \<open>
  \<^verbatim>\<open>load_dataframe\<close>: an empty frame is a success without a job. A load job into a table
  that is not there creates it (the default create disposition of the warehouse); the schema
  it would infer from the file is not modelled and left empty.
\<close>

definition load_dataframe ::
  "'r bigquery \<Rightarrow> 'r list \<Rightarrow> string \<Rightarrow> write_disposition \<Rightarrow> bool \<times> 'r bigquery" where
  "load_dataframe bq df table_name disposition =
     (if df = [] then (True, bq)
      else if load_raises bq table_name then (False, bq)
      else
        let old = (case tables bq table_name of
                     None \<Rightarrow> \<lparr>schema = [], clustering_fields = None, table_data = []\<rparr>
                   | Some t \<Rightarrow> t);
            rows = (case disposition of
                      WRITE_TRUNCATE \<Rightarrow> df
                    | WRITE_APPEND \<Rightarrow> table_data old @ df)
        in (True, bq\<lparr>tables := (tables bq)(table_name \<mapsto> old\<lparr>table_data := rows\<rparr>)\<rparr>))"

text \<open>
  \<^verbatim>\<open>delete_rows\<close>: one \<^verbatim>\<open>DELETE\<close> statement whose condition is the disjunction, over the key
  rows, of the per-row conjunctions. The statement fails on a table that is not there.
\<close>

definition delete_rows :: "'r bigquery \<Rightarrow> string \<Rightarrow> 'r list \<Rightarrow> bool \<times> 'r bigquery" where
  "delete_rows bq table_name pk_df =
     (if pk_df = [] then (True, bq)
      else if query_raises bq table_name then (False, bq)
      else (case tables bq table_name of
              None \<Rightarrow> (False, bq)
            | Some t \<Rightarrow>
                (True, bq\<lparr>tables := (tables bq)(table_name \<mapsto>
                   t\<lparr>table_data :=
                       filter (\<lambda>r. \<not> list_ex (\<lambda>k. row_matches bq k r) pk_df) (table_data t)\<rparr>)\<rparr>)))"

section \<open>Orchestrator: \<^verbatim>\<open>connector/replicator.py\<close>\<close>

text \<open>The loop that sets \<^verbatim>\<open>is_primary_key\<close> on the schema columns named by the primary key.\<close>

definition mark_primary_keys :: "column list \<Rightarrow> string list \<Rightarrow> column list" where
  "mark_primary_keys columns pk_columns =
     map (\<lambda>col. if name col \<in> set pk_columns then col\<lparr>is_primary_key := True\<rparr> else col)
         columns"

text \<open>
  The branch of \<^verbatim>\<open>replicate_table\<close> taken when the target table does not exist: create it,
  scan the source, load with \<^verbatim>\<open>WRITE_TRUNCATE\<close> (the default), record the current version.
  An empty scan is only logged.
\<close>

definition initial_load ::
  "('r, 'k::linorder) sql_server \<Rightarrow> nat \<Rightarrow> string \<Rightarrow> 'r bigquery \<Rightarrow> state_manager \<Rightarrow> string
     \<Rightarrow> column list \<Rightarrow> bool \<times> 'r bigquery \<times> state_manager" where
  "initial_load src batch_size now bq sm table_name columns =
     (case create_table bq table_name columns of
        (created, bq1) \<Rightarrow>
          if \<not> created then (False, bq1, sm)
          else
            let df = get_all_data src table_name batch_size;
                finish = (\<lambda>bq'. (True, bq',
                            update_sync_version sm table_name
                              (get_change_tracking_current_version src) now))
            in if df = [] then finish bq1
               else (case load_dataframe bq1 df table_name WRITE_TRUNCATE of
                       (loaded, bq2) \<Rightarrow> if \<not> loaded then (False, bq2, sm) else finish bq2))"

text \<open>
  The rest of \<^verbatim>\<open>replicate_table\<close>, taken when the target table exists: read the checkpoint,
  fetch the changes, append the changed rows, delete the deleted keys, write the checkpoint.
\<close>

definition incremental_sync ::
  "('r, 'k) sql_server \<Rightarrow> string \<Rightarrow> 'r bigquery \<Rightarrow> state_manager \<Rightarrow> string
     \<Rightarrow> bool \<times> 'r bigquery \<times> state_manager" where
  "incremental_sync src now bq sm table_name =
     (case get_changed_data src table_name (get_last_sync_version sm table_name) of
        (changed_df, deleted_df, current_version) \<Rightarrow>
          if current_version = 0 then (False, bq, sm)
          else
            (case (if changed_df \<noteq> []
                   then load_dataframe bq changed_df table_name WRITE_APPEND else (True, bq)) of
               (loaded, bq1) \<Rightarrow>
                 if \<not> loaded then (False, bq1, sm)
                 else
                   (case (if deleted_df \<noteq> []
                          then delete_rows bq1 table_name deleted_df else (True, bq1)) of
                      (deleted, bq2) \<Rightarrow>
                        if \<not> deleted then (False, bq2, sm)
                        else (True, bq2,
                              update_sync_version sm table_name current_version now))))"

definition replicate_table ::
  "('r, 'k::linorder) sql_server \<Rightarrow> nat \<Rightarrow> string \<Rightarrow> 'r bigquery \<Rightarrow> state_manager \<Rightarrow> string
     \<Rightarrow> bool \<times> 'r bigquery \<times> state_manager" where
  "replicate_table src batch_size now bq sm table_name =
     (if \<not> is_change_tracking_enabled src table_name then (False, bq, sm)
      else
        let columns = get_table_schema src table_name in
        if columns = [] then (False, bq, sm)
        else
          let pk_columns = get_primary_key_columns src table_name;
              columns' = mark_primary_keys columns pk_columns
          in if \<not> table_exists bq table_name
             then initial_load src batch_size now bq sm table_name columns'
             else incremental_sync src now bq sm table_name)"

text \<open>
  \<^verbatim>\<open>str.strip\<close> removes the white space at both ends. A character of the model is a code
  point below 256 (text with code points beyond that has no counterpart here); among these,
  \<^verbatim>\<open>str.isspace\<close> holds of tab, line feed, vertical tab, form feed, carriage return, the four
  separators 28 to 31, the blank, the next-line control 133 and the no-break space 160.
\<close>

definition isspace :: "char \<Rightarrow> bool" where
  "isspace c = ((of_char c :: nat) \<in> set [9, 10, 11, 12, 13, 28, 29, 30, 31, 32, 133, 160])"

definition strip :: "string \<Rightarrow> string" where
  "strip s = rev (dropWhile isspace (rev (dropWhile isspace s)))"

text \<open>
  The loop of \<^verbatim>\<open>replicate_all_tables\<close> over the configured names, with its flag
  \<^verbatim>\<open>success\<close>; blank names are skipped.
\<close>

fun replicate_each ::
  "('r, 'k::linorder) sql_server \<Rightarrow> nat \<Rightarrow> string \<Rightarrow> string list \<Rightarrow> bool \<Rightarrow> 'r bigquery
     \<Rightarrow> state_manager \<Rightarrow> bool \<times> 'r bigquery \<times> state_manager" where
  "replicate_each src batch_size now [] success bq sm = (success, bq, sm)"
| "replicate_each src batch_size now (table_name # rest) success bq sm =
     (let table_name = strip table_name in
      if table_name = [] then replicate_each src batch_size now rest success bq sm
      else (case replicate_table src batch_size now bq sm table_name of
              (table_success, bq', sm') \<Rightarrow>
                replicate_each src batch_size now rest (success \<and> table_success) bq' sm'))"

definition replicate_all_tables ::
  "string list \<Rightarrow> ('r, 'k::linorder) sql_server \<Rightarrow> nat \<Rightarrow> string \<Rightarrow> 'r bigquery
     \<Rightarrow> state_manager \<Rightarrow> bool \<times> 'r bigquery \<times> state_manager" where
  "replicate_all_tables table_names src batch_size now bq sm =
     replicate_each src batch_size now table_names True bq sm"

section \<open>Entry point: \<^verbatim>\<open>main.py\<close>\<close>

text \<open>
  The environment variables the script reads (\<open>None\<close>: unset). \<open>TABLES_ENV\<close> is the variable
  \<^verbatim>\<open>TABLES_TO_REPLICATE\<close>; \<open>BATCH_SIZE\<close> is the variable of that name after \<^verbatim>\<open>int\<close>.
\<close>

record config =
  SQL_SERVER :: "string option"
  SQL_DATABASE :: "string option"
  BQ_PROJECT_ID :: "string option"
  BQ_DATASET :: "string option"
  TABLES_ENV :: "string option"
  BATCH_SIZE :: nat

text \<open>\<^verbatim>\<open>s.split(',')\<close>.\<close>

fun split_comma :: "string \<Rightarrow> string list" where
  "split_comma [] = [[]]"
| "split_comma (c # cs) =
     (if c = CHR '','' then [] # split_comma cs
      else (case split_comma cs of
              [] \<Rightarrow> [[c]]
            | w # ws \<Rightarrow> (c # w) # ws))"

text \<open>\<^verbatim>\<open>os.getenv('TABLES_TO_REPLICATE', '').split(',')\<close>.\<close>

definition TABLES_TO_REPLICATE :: "config \<Rightarrow> string list" where
  "TABLES_TO_REPLICATE cfg =
     split_comma (case TABLES_ENV cfg of None \<Rightarrow> [] | Some s \<Rightarrow> s)"

text \<open>\<^verbatim>\<open>not v\<close> for an optional string: unset or empty.\<close>

definition unset :: "string option \<Rightarrow> bool" where
  "unset v = (v = None \<or> v = Some [])"

datatype event = Sql_Connect | Bq_Connect | Sql_Close | Bq_Close

text \<open>
  \<^verbatim>\<open>main\<close> returns the exit code; the model adds the connection calls the run made, in order,
  the warehouse and the content of the state file after the run. \<^verbatim>\<open>Replicator.initialize\<close>
  calls both \<^verbatim>\<open>connect\<close> methods before it combines their results. No function of the model
  lets an exception escape, so the \<^verbatim>\<open>except\<close> clause of \<^verbatim>\<open>main\<close> has no counterpart.
\<close>

definition main ::
  "config \<Rightarrow> ('r, 'k::linorder) sql_server \<Rightarrow> 'r bigquery \<Rightarrow> file_content \<Rightarrow> write_outcome
     \<Rightarrow> string \<Rightarrow> int \<times> event list \<times> 'r bigquery \<times> file_content" where
  "main cfg src bq file w now =
     (if unset (SQL_SERVER cfg) \<or> unset (SQL_DATABASE cfg) then (1, [], bq, file)
      else if unset (BQ_PROJECT_ID cfg) \<or> unset (BQ_DATASET cfg) then (1, [], bq, file)
      else if TABLES_TO_REPLICATE cfg = [] then (1, [], bq, file)
      else
        let sm = StateManager file w;
            sql_connected = sql_reachable src;
            bq_connected = bq_reachable bq
        in if \<not> (sql_connected \<and> bq_connected) then (1, [Sql_Connect, Bq_Connect], bq, file)
           else (case replicate_all_tables (TABLES_TO_REPLICATE cfg) src (BATCH_SIZE cfg) now
                        bq sm of
                   (success, bq', sm') \<Rightarrow>
                     (if success then 0 else 1,
                      [Sql_Connect, Bq_Connect, Sql_Close, Bq_Close], bq', state_file sm')))"

section \<open>Example worlds\<close>

text \<open>
  A source with one tracked table \<^verbatim>\<open>orders\<close> (columns \<^verbatim>\<open>id\<close> and \<^verbatim>\<open>total\<close>), given its current
  version, its primary key and its rows; a row is its own key value, and no changes are
  recorded in the feed. A warehouse given its tables and whether load jobs fail. A state file
  that holds one checkpoint for \<^verbatim>\<open>orders\<close>.
\<close>

definition orders_source :: "int \<Rightarrow> string list \<Rightarrow> nat list \<Rightarrow> (nat, nat) sql_server" where
  "orders_source v pk rows =
     \<lparr>sql_reachable = True,
      tracking_rows = (\<lambda>t. if t = ''orders'' then [True] else []),
      version_rows = [v],
      schema_rows = (\<lambda>t. if t = ''orders''
                         then [(''id'', ''int'', False), (''total'', ''money'', True)] else []),
      primary_key_rows = (\<lambda>t. if t = ''orders'' then pk else []),
      count_rows = (\<lambda>t. if t = ''orders'' then [length rows] else []),
      table_rows = (\<lambda>t. if t = ''orders'' then rows else []),
      cell = (\<lambda>c r. r),
      change_rows = (\<lambda>t v. Some ([], []))\<rparr>"

text \<open>The same source with change tracking switched off for every table.\<close>

definition untracked_source :: "int \<Rightarrow> (nat, nat) sql_server" where
  "untracked_source v = (orders_source v [''id''] [])\<lparr>tracking_rows := (\<lambda>t. [False])\<rparr>"

text \<open>An empty tracked table \<^verbatim>\<open>pairs\<close> whose primary key is \<^verbatim>\<open>(b, a)\<close> over the columns \<^verbatim>\<open>a, b\<close>.\<close>

definition pairs_source :: "(nat, nat) sql_server" where
  "pairs_source =
     \<lparr>sql_reachable = True,
      tracking_rows = (\<lambda>t. if t = ''pairs'' then [True] else []),
      version_rows = [7],
      schema_rows = (\<lambda>t. if t = ''pairs''
                         then [(''a'', ''int'', False), (''b'', ''int'', False)] else []),
      primary_key_rows = (\<lambda>t. if t = ''pairs'' then [''b'', ''a''] else []),
      count_rows = (\<lambda>t. if t = ''pairs'' then [0] else []),
      table_rows = (\<lambda>t. []),
      cell = (\<lambda>c r. r),
      change_rows = (\<lambda>t v. Some ([], []))\<rparr>"

definition warehouse :: "(string \<rightharpoonup> nat bq_table) \<Rightarrow> bool \<Rightarrow> nat bigquery" where
  "warehouse ts load_fails =
     \<lparr>bq_reachable = True, tables = ts, get_table_raises = (\<lambda>t. False),
      create_raises = (\<lambda>t. False), load_raises = (\<lambda>t. load_fails),
      query_raises = (\<lambda>t. False), row_matches = (\<lambda>k r. k = r)\<rparr>"

definition orders_table :: "nat list \<Rightarrow> nat bq_table" where
  "orders_table rows =
     \<lparr>schema = [\<lparr>field_name = ''id'', field_type = INTEGER, mode = REQUIRED\<rparr>,
                \<lparr>field_name = ''total'', field_type = NUMERIC, mode = NULLABLE\<rparr>],
      clustering_fields = Some [''id''], table_data = rows\<rparr>"

definition checkpoint :: "int \<Rightarrow> file_content" where
  "checkpoint v =
     Document [''orders'' \<mapsto> \<lparr>last_sync_version = Some v, last_sync_time = Some ''t0''\<rparr>]"

definition example_config :: "string option \<Rightarrow> config" where
  "example_config tables_env =
     \<lparr>SQL_SERVER = Some ''db.example'', SQL_DATABASE = Some ''sales'',
      BQ_PROJECT_ID = Some ''analytics'', BQ_DATASET = Some ''mirror'',
      TABLES_ENV = tables_env, BATCH_SIZE = 1000\<rparr>"

lemmas source_simps = is_change_tracking_enabled_def get_change_tracking_current_version_def
  get_primary_key_columns_def get_table_schema_def

lemmas example_simps = orders_source_def warehouse_def orders_table_def checkpoint_def
  StateManager_def

section \<open>The checkpoint store\<close>

lemma get_last_sync_version_update:
  "get_last_sync_version (update_sync_version sm t v now) t = v"
  by (simp add: get_last_sync_version_def update_sync_version_def save_state_def Let_def
      split: write_outcome.splits)

lemma update_sync_version_other:
  "t' \<noteq> t \<Longrightarrow> state (update_sync_version sm t' v now) t = state sm t"
  by (simp add: update_sync_version_def save_state_def Let_def split: write_outcome.splits)

section \<open>The keyed full scan\<close>

lemma after_cursor_Some: "after_cursor key (Some v) = (\<lambda>r. v < key r)"
  by (simp add: after_cursor_def fun_eq_iff)

text \<open>Sorting rows with pairwise different keys puts the keys in strictly increasing order.\<close>

lemma strictly_sorted_sort_key:
  fixes key :: "'r \<Rightarrow> 'k::linorder"
  assumes "distinct (map key rows)"
  shows "sorted_wrt (\<lambda>a b. key a < key b) (sort_key key rows)"
proof -
  have "sorted (map key (sort_key key rows))" by simp
  moreover have "distinct (map key (sort_key key rows))"
    using assms by (simp add: distinct_map)
  ultimately have "sorted_wrt (<) (map key (sort_key key rows))"
    by (simp add: strict_sorted_iff)
  then show ?thesis by (simp add: sorted_wrt_map)
qed

text \<open>In such a list, the rows beyond the key at position \<open>i\<close> are the rows after position \<open>i\<close>.\<close>

lemma filter_after_nth:
  fixes key :: "'r \<Rightarrow> 'k::linorder"
  shows "sorted_wrt (\<lambda>a b. key a < key b) ys \<Longrightarrow> i < length ys \<Longrightarrow>
   filter (\<lambda>r. key (ys ! i) < key r) ys = drop (Suc i) ys"
proof (induction ys arbitrary: i)
  case Nil
  then show ?case by simp
next
  case (Cons y ys)
  show ?case
  proof (cases i)
    case 0
    have "filter (\<lambda>r. key y < key r) ys = ys"
      using Cons.prems(1) by (auto intro: filter_True)
    with 0 show ?thesis by simp
  next
    case (Suc j)
    with Cons.prems have j: "j < length ys" and lt: "key y < key (ys ! j)" by auto
    have "filter (\<lambda>r. key (ys ! j) < key r) ys = drop (Suc j) ys"
      using Cons.IH [of j] Cons.prems(1) j by simp
    with Suc lt show ?thesis by simp
  qed
qed

lemma pk_batch_query_sorted:
  "pk_batch_query key b rows c = take b (filter (after_cursor key c) (sort_key key rows))"
  by (simp add: pk_batch_query_def filter_sort)

text \<open>
  One turn of the loop on a full batch: with \<open>i\<close> rows fetched so far and at least \<open>b\<close> more
  to come, the loop takes the next \<open>b\<close> rows and moves the cursor to the last of them.
\<close>

lemma pk_loop_full_batch:
  assumes ss: "sorted_wrt (\<lambda>a b. key a < key b) (sort_key key rows)"
    and cur: "filter (after_cursor key c) (sort_key key rows) = drop i (sort_key key rows)"
    and b: "0 < b" and len: "i + b \<le> length rows"
  shows "pk_loop key b rows c acc log =
           pk_loop key b rows (Some (key (sort_key key rows ! (i + b - 1))))
             (acc @ take b (drop i (sort_key key rows))) (log @ [b])"
    and "filter (after_cursor key (Some (key (sort_key key rows ! (i + b - 1)))))
           (sort_key key rows) = drop (i + b) (sort_key key rows)"
proof -
  let ?ys = "sort_key key rows"
  let ?batch = "pk_batch_query key b rows c"
  have batch: "?batch = take b (drop i ?ys)" by (simp add: pk_batch_query_sorted cur)
  have lb: "length ?batch = b" using len by (simp add: batch)
  then have ne: "?batch \<noteq> []" using b by auto
  have "last ?batch = ?batch ! (b - 1)" using ne lb by (simp add: last_conv_nth)
  also have "\<dots> = ?ys ! (i + b - 1)" using b len by (simp add: batch)
  finally have last: "last ?batch = ?ys ! (i + b - 1)" .
  show "pk_loop key b rows c acc log =
          pk_loop key b rows (Some (key (?ys ! (i + b - 1)))) (acc @ take b (drop i ?ys))
            (log @ [b])"
    using ne lb last batch by (subst pk_loop.simps) (simp add: Let_def)
  have "filter (\<lambda>r. key (?ys ! (i + b - 1)) < key r) ?ys = drop (Suc (i + b - 1)) ?ys"
    using ss b len by (intro filter_after_nth) auto
  then show "filter (after_cursor key (Some (key (?ys ! (i + b - 1))))) ?ys = drop (i + b) ?ys"
    using b by (simp add: after_cursor_Some)
qed

text \<open>The last turn: fewer than \<open>b\<close> rows are left, the loop takes them and stops.\<close>

lemma pk_loop_short_batch:
  assumes cur: "filter (after_cursor key c) (sort_key key rows) = drop i (sort_key key rows)"
    and len: "length rows < i + b"
  shows "pk_loop key b rows c acc log =
           (acc @ drop i (sort_key key rows), log @ [length rows - i])"
proof -
  have batch: "pk_batch_query key b rows c = drop i (sort_key key rows)"
    using len by (simp add: pk_batch_query_sorted cur)
  show ?thesis
    using len by (subst pk_loop.simps) (auto simp add: Let_def batch)
qed

text \<open>
  C9. On a table of 2500 rows with a single-column primary key (so the key values are
  pairwise different), the keyed scan with batch size 1000 issues exactly three batch
  queries, which return 1000, 1000 and 500 rows; it returns all the rows of the table, in key
  order, and stops at the first batch shorter than the batch size.
\<close>

theorem keyed_scan_of_2500_rows:
  assumes "length rows = 2500" and "distinct (map key rows)"
  shows "get_all_data_with_pk key 1000 rows = (sort_key key rows, [1000, 1000, 500])"
proof -
  let ?ys = "sort_key key rows"
  note ss = strictly_sorted_sort_key [OF assms(2)]
  have c0: "filter (after_cursor key None) ?ys = drop 0 ?ys" by (simp add: after_cursor_def)
  have l1: "0 + 1000 \<le> length rows" using assms(1) by simp
  have c1: "filter (after_cursor key (Some (key (?ys ! 999)))) ?ys = drop 1000 ?ys"
    using pk_loop_full_batch(2) [OF ss c0 _ l1] by simp
  have l2: "1000 + 1000 \<le> length rows" using assms(1) by simp
  have c2: "filter (after_cursor key (Some (key (?ys ! 1999)))) ?ys = drop 2000 ?ys"
    using pk_loop_full_batch(2) [OF ss c1 _ l2] by simp
  have l3: "length rows < 2000 + 1000" using assms(1) by simp
  have "pk_loop key 1000 rows None [] [] =
        pk_loop key 1000 rows (Some (key (?ys ! 999))) (take 1000 ?ys) [1000]"
    using pk_loop_full_batch(1) [OF ss c0 _ l1, of "[]" "[]"] by simp
  also have "\<dots> = pk_loop key 1000 rows (Some (key (?ys ! 1999)))
        (take 1000 ?ys @ take 1000 (drop 1000 ?ys)) [1000, 1000]"
    using pk_loop_full_batch(1) [OF ss c1 _ l2, of "take 1000 ?ys" "[1000]"] by simp
  also have "\<dots> = ((take 1000 ?ys @ take 1000 (drop 1000 ?ys)) @ drop 2000 ?ys,
        [1000, 1000] @ [length rows - 2000])"
    by (rule pk_loop_short_batch [OF c2 l3])
  also have "(take 1000 ?ys @ take 1000 (drop 1000 ?ys)) @ drop 2000 ?ys = ?ys"
  proof -
    have "take 1000 (drop 1000 ?ys) @ drop 2000 ?ys = drop 1000 ?ys"
      using append_take_drop_id [of 1000 "drop 1000 ?ys"] by simp
    then show ?thesis by simp
  qed
  finally show ?thesis using assms(1) by (simp add: get_all_data_with_pk_def)
qed

text \<open>The rows \<open>0, \<dots>, 2499\<close>, each its own key.\<close>

theorem keyed_scan_of_2500_rows_witness:
  "length [0..<2500] = 2500 \<and> distinct (map id [0..<2500]) \<and>
   get_all_data_with_pk id 1000 [0..<2500] = (sort_key id [0..<2500], [1000, 1000, 500])"
  using keyed_scan_of_2500_rows [of "[0..<2500]" id] by simp


section \<open>Fetching the changes\<close>

text \<open>
  C3, as the code has it. When \<^verbatim>\<open>get_changed_data\<close> does not report a failure (its version
  is not 0) and the current version of the feed is not below the watermark, the version it
  returns is the current version of the feed and is at least the watermark. When change
  tracking is enabled for the table and the current version of the feed is below the
  watermark, the call returns the empty change set with the current version, which is below
  the watermark. For a table without change tracking the call reports failure, version 0,
  whatever the watermark.
\<close>

theorem changed_data_version_at_least_watermark:
  "(snd (snd (get_changed_data src t since)) \<noteq> 0 \<longrightarrow>
      since \<le> get_change_tracking_current_version src \<longrightarrow>
      snd (snd (get_changed_data src t since)) = get_change_tracking_current_version src \<and>
      since \<le> snd (snd (get_changed_data src t since))) \<and>
   (is_change_tracking_enabled src t \<longrightarrow>
      get_change_tracking_current_version src < since \<longrightarrow>
      get_changed_data src t since = ([], [], get_change_tracking_current_version src)) \<and>
   (\<not> is_change_tracking_enabled src t \<longrightarrow> get_changed_data src t since = ([], [], 0))"
  by (auto simp: get_changed_data_def Let_def split: if_splits option.splits)

text \<open>
  A tracked table with the feed at 55 and watermark 50; the same table with the feed at 3
  and watermark 9; an untracked table with the feed at 40 and watermark 50.
\<close>

theorem changed_data_version_at_least_watermark_witness:
  "snd (snd (get_changed_data (orders_source 55 [''id''] []) ''orders'' 50)) \<noteq> 0 \<and>
   50 \<le> get_change_tracking_current_version (orders_source 55 [''id''] []) \<and>
   snd (snd (get_changed_data (orders_source 55 [''id''] []) ''orders'' 50)) =
     get_change_tracking_current_version (orders_source 55 [''id''] []) \<and>
   50 \<le> snd (snd (get_changed_data (orders_source 55 [''id''] []) ''orders'' 50)) \<and>
   is_change_tracking_enabled (orders_source 3 [''id''] []) ''orders'' \<and>
   get_change_tracking_current_version (orders_source 3 [''id''] []) < 9 \<and>
   get_changed_data (orders_source 3 [''id''] []) ''orders'' 9 =
     ([], [], get_change_tracking_current_version (orders_source 3 [''id''] [])) \<and>
   \<not> is_change_tracking_enabled (untracked_source 40) ''orders'' \<and>
   get_changed_data (untracked_source 40) ''orders'' 50 = ([], [], 0)"
proof -
  have a: "snd (snd (get_changed_data (orders_source 55 [''id''] []) ''orders'' 50)) \<noteq> 0"
    "50 \<le> get_change_tracking_current_version (orders_source 55 [''id''] [])"
    by (simp_all add: get_changed_data_def source_simps orders_source_def)
  have b: "is_change_tracking_enabled (orders_source 3 [''id''] []) ''orders''"
    "get_change_tracking_current_version (orders_source 3 [''id''] []) < 9"
    by (simp_all add: source_simps orders_source_def)
  have c: "\<not> is_change_tracking_enabled (untracked_source 40) ''orders''"
    by (simp add: source_simps untracked_source_def orders_source_def)
  from changed_data_version_at_least_watermark [of "orders_source 55 [''id''] []" "''orders''" 50]
       changed_data_version_at_least_watermark [of "orders_source 3 [''id''] []" "''orders''" 9]
       changed_data_version_at_least_watermark [of "untracked_source 40" "''orders''" 50] a b c
  show ?thesis by blast
qed

text \<open>
  C3 as stated fails when the feed is behind the watermark: with current version 40 and
  watermark 50 the call returns the empty change set with version 40.
\<close>

theorem stale_feed_version_below_watermark:
  "get_changed_data (orders_source 40 [''id''] []) ''orders'' 50 = ([], [], 40) \<and>
   \<not> 50 \<le> snd (snd (get_changed_data (orders_source 40 [''id''] []) ''orders'' 50))"
  by (simp add: get_changed_data_def source_simps orders_source_def)

section \<open>One pass over a table\<close>

subsection \<open>What a pass leaves alone\<close>

text \<open>A pass over one table does not touch the tables and checkpoints of the others.\<close>

lemma create_table_other:
  "t' \<noteq> t \<Longrightarrow> create_table bq t' cols = (ok, bq') \<Longrightarrow>
   tables bq' t = tables bq t \<and> get_table_raises bq' = get_table_raises bq"
  by (auto simp: create_table_def Let_def split: if_splits)

lemma load_dataframe_other:
  "t' \<noteq> t \<Longrightarrow> load_dataframe bq df t' d = (ok, bq') \<Longrightarrow>
   tables bq' t = tables bq t \<and> get_table_raises bq' = get_table_raises bq"
  by (auto simp: load_dataframe_def Let_def split: if_splits)

lemma delete_rows_other:
  "t' \<noteq> t \<Longrightarrow> delete_rows bq t' ks = (ok, bq') \<Longrightarrow>
   tables bq' t = tables bq t \<and> get_table_raises bq' = get_table_raises bq"
  by (auto simp: delete_rows_def split: if_splits option.splits)

lemma initial_load_other:
  assumes "t' \<noteq> t" and "initial_load src b now bq sm t' cols = (ok, bq', sm')"
  shows "tables bq' t = tables bq t \<and> get_table_raises bq' = get_table_raises bq \<and>
         state sm' t = state sm t"
proof -
  obtain created bq1 where c: "create_table bq t' cols = (created, bq1)" by force
  note c1 = create_table_other [OF assms(1) c]
  show ?thesis
  proof (cases "created \<and> get_all_data src t' b \<noteq> []")
    case False
    then show ?thesis
      using assms c c1
      by (auto simp: initial_load_def Let_def update_sync_version_other split: if_splits)
  next
    case True
    obtain loaded bq2 where
      l: "load_dataframe bq1 (get_all_data src t' b) t' WRITE_TRUNCATE = (loaded, bq2)"
      by force
    note l1 = load_dataframe_other [OF assms(1) l]
    show ?thesis
      using True assms c c1 l l1
      by (auto simp: initial_load_def Let_def update_sync_version_other split: if_splits)
  qed
qed

lemma incremental_sync_other:
  assumes "t' \<noteq> t" and "incremental_sync src now bq sm t' = (ok, bq', sm')"
  shows "tables bq' t = tables bq t \<and> get_table_raises bq' = get_table_raises bq \<and>
         state sm' t = state sm t"
proof -
  obtain ch del v where g: "get_changed_data src t' (get_last_sync_version sm t') = (ch, del, v)"
    by (metis prod_cases3)
  obtain loaded bq1 where l:
    "(if ch \<noteq> [] then load_dataframe bq ch t' WRITE_APPEND else (True, bq)) = (loaded, bq1)"
    by force
  obtain deleted bq2 where d:
    "(if del \<noteq> [] then delete_rows bq1 t' del else (True, bq1)) = (deleted, bq2)"
    by force
  have l1: "tables bq1 t = tables bq t \<and> get_table_raises bq1 = get_table_raises bq"
    using l by (auto split: if_splits dest: load_dataframe_other [OF assms(1)])
  have d1: "tables bq2 t = tables bq1 t \<and> get_table_raises bq2 = get_table_raises bq1"
    using d by (auto split: if_splits dest: delete_rows_other [OF assms(1)])
  show ?thesis
    using assms(2) g l d l1 d1
    by (auto simp: incremental_sync_def update_sync_version_other [OF assms(1)] split: if_splits)
qed

lemma replicate_table_other:
  assumes "t' \<noteq> t" and "replicate_table src b now bq sm t' = (ok, bq', sm')"
  shows "tables bq' t = tables bq t \<and> get_table_raises bq' = get_table_raises bq \<and>
         state sm' t = state sm t"
  using assms(2)
  by (auto simp: replicate_table_def Let_def split: if_splits
      dest: initial_load_other [OF assms(1)] incremental_sync_other [OF assms(1)])

text \<open>Once a table has failed, the run reports failure whatever the later tables do.\<close>

lemma replicate_each_failed:
  "fst (replicate_each src b now names False bq sm) = False"
  by (induction names arbitrary: bq sm) (auto simp: Let_def split: prod.splits)

subsection \<open>The checkpoint a pass writes\<close>

text \<open>
  A pass that succeeds writes the checkpoint once, with the current version of the feed; a
  pass that fails does not write it.
\<close>

lemma initial_load_result:
  "initial_load src b now bq sm t cols = (ok, bq', sm') \<Longrightarrow>
   (if ok then sm' = update_sync_version sm t (get_change_tracking_current_version src) now
    else sm' = sm)"
  by (auto simp: initial_load_def Let_def split: prod.splits if_splits)

lemma incremental_sync_result:
  "incremental_sync src now bq sm t = (ok, bq', sm') \<Longrightarrow>
   (if ok then sm' = update_sync_version sm t (get_change_tracking_current_version src) now
    else sm' = sm)"
  by (auto simp: incremental_sync_def get_changed_data_def Let_def
      split: prod.splits if_splits option.splits)

lemma replicate_table_result:
  "replicate_table src b now bq sm t = (ok, bq', sm') \<Longrightarrow>
   (if ok then sm' = update_sync_version sm t (get_change_tracking_current_version src) now
    else sm' = sm)"
  by (auto simp: replicate_table_def Let_def split: if_splits
      dest: initial_load_result incremental_sync_result)

text \<open>
  C2, as the code has it. A pass over a table that succeeds writes the checkpoint of the
  table once, with the current version of the feed; a pass that fails leaves the checkpoint
  store as it was. So after a pass the stored version is the current version of the feed if
  the pass succeeded and the old one if not, and it has not decreased whenever the current
  version of the feed is not below the stored one. The code compares the two nowhere before
  it writes.
\<close>

theorem checkpoint_follows_feed_version:
  assumes "replicate_table src b now bq sm t = (ok, bq', sm')"
  shows "sm' = (if ok then update_sync_version sm t (get_change_tracking_current_version src) now
                else sm) \<and>
         get_last_sync_version sm' t =
           (if ok then get_change_tracking_current_version src else get_last_sync_version sm t) \<and>
         (get_last_sync_version sm t \<le> get_change_tracking_current_version src \<longrightarrow>
            get_last_sync_version sm t \<le> get_last_sync_version sm' t)"
  using replicate_table_result [OF assms]
  by (auto simp: get_last_sync_version_update split: if_splits)

text \<open>
  Two passes with checkpoint 50 stored and the feed at 55: one that succeeds and writes 55,
  and one over a table without primary key, which fails and writes nothing.
\<close>

theorem checkpoint_follows_feed_version_witness:
  "replicate_table (orders_source 55 [''id''] [7]) 1000 ''t1''
       (warehouse [''orders'' \<mapsto> orders_table [7]] False)
       (StateManager (checkpoint 50) Write_Ok) ''orders''
     = (True, warehouse [''orders'' \<mapsto> orders_table [7]] False,
        update_sync_version (StateManager (checkpoint 50) Write_Ok) ''orders'' 55 ''t1'') \<and>
   replicate_table (orders_source 55 [] [7]) 1000 ''t1''
       (warehouse [''orders'' \<mapsto> orders_table [7]] False)
       (StateManager (checkpoint 50) Write_Ok) ''orders''
     = (False, warehouse [''orders'' \<mapsto> orders_table [7]] False,
        StateManager (checkpoint 50) Write_Ok) \<and>
   get_change_tracking_current_version (orders_source 55 [''id''] [7]) = 55 \<and>
   get_last_sync_version (StateManager (checkpoint 50) Write_Ok) ''orders'' = 50 \<and>
   get_last_sync_version (StateManager (checkpoint 50) Write_Ok) ''orders''
     \<le> get_change_tracking_current_version (orders_source 55 [''id''] [7]) \<and>
   get_last_sync_version
     (update_sync_version (StateManager (checkpoint 50) Write_Ok) ''orders'' 55 ''t1'') ''orders''
     = 55 \<and>
   get_last_sync_version (StateManager (checkpoint 50) Write_Ok) ''orders''
     \<le> get_last_sync_version
          (update_sync_version (StateManager (checkpoint 50) Write_Ok) ''orders'' 55 ''t1'')
          ''orders''"
proof -
  have v: "get_last_sync_version (StateManager (checkpoint 50) Write_Ok) ''orders'' = 50"
    by (simp add: example_simps get_last_sync_version_def)
  have c: "get_change_tracking_current_version (orders_source 55 [''id''] [7]) = 55"
    by (simp add: source_simps orders_source_def)
  have r: "replicate_table (orders_source 55 [''id''] [7]) 1000 ''t1''
       (warehouse [''orders'' \<mapsto> orders_table [7]] False)
       (StateManager (checkpoint 50) Write_Ok) ''orders''
     = (True, warehouse [''orders'' \<mapsto> orders_table [7]] False,
        update_sync_version (StateManager (checkpoint 50) Write_Ok) ''orders'' 55 ''t1'')"
    using v by (simp add: replicate_table_def incremental_sync_def get_changed_data_def
        source_simps orders_source_def warehouse_def table_exists_def)
  have f: "replicate_table (orders_source 55 [] [7]) 1000 ''t1''
       (warehouse [''orders'' \<mapsto> orders_table [7]] False)
       (StateManager (checkpoint 50) Write_Ok) ''orders''
     = (False, warehouse [''orders'' \<mapsto> orders_table [7]] False,
        StateManager (checkpoint 50) Write_Ok)"
    using v by (simp add: replicate_table_def incremental_sync_def get_changed_data_def
        source_simps orders_source_def warehouse_def table_exists_def)
  from checkpoint_follows_feed_version [OF r] checkpoint_follows_feed_version [OF f] r f v c
  show ?thesis by simp
qed

text \<open>
  C2 as stated fails: with checkpoint 50 stored and a feed at version 40, the pass succeeds
  and writes 40.
\<close>

theorem checkpoint_can_decrease:
  "get_last_sync_version (StateManager (checkpoint 50) Write_Ok) ''orders'' = 50 \<and>
   replicate_table (orders_source 40 [''id''] []) 1000 ''t1''
       (warehouse [''orders'' \<mapsto> orders_table []] False)
       (StateManager (checkpoint 50) Write_Ok) ''orders''
     = (True, warehouse [''orders'' \<mapsto> orders_table []] False,
        update_sync_version (StateManager (checkpoint 50) Write_Ok) ''orders'' 40 ''t1'') \<and>
   get_last_sync_version
     (update_sync_version (StateManager (checkpoint 50) Write_Ok) ''orders'' 40 ''t1'') ''orders''
     = 40"
proof (intro conjI)
  show "get_last_sync_version (StateManager (checkpoint 50) Write_Ok) ''orders'' = 50"
    by (simp add: example_simps get_last_sync_version_def)
  then show "replicate_table (orders_source 40 [''id''] []) 1000 ''t1''
       (warehouse [''orders'' \<mapsto> orders_table []] False)
       (StateManager (checkpoint 50) Write_Ok) ''orders''
     = (True, warehouse [''orders'' \<mapsto> orders_table []] False,
        update_sync_version (StateManager (checkpoint 50) Write_Ok) ''orders'' 40 ''t1'')"
    by (simp add: replicate_table_def incremental_sync_def get_changed_data_def source_simps
        orders_source_def warehouse_def table_exists_def)
  show "get_last_sync_version
     (update_sync_version (StateManager (checkpoint 50) Write_Ok) ''orders'' 40 ''t1'') ''orders''
     = 40"
    by (rule get_last_sync_version_update)
qed

subsection \<open>A failed write of the state file\<close>

lemma replicate_table_ignores_write:
  "fst (replicate_table src b now bq (sm\<lparr>next_write := w\<rparr>) t) =
   fst (replicate_table src b now bq sm t)"
  by (simp add: replicate_table_def initial_load_def incremental_sync_def Let_def
      get_last_sync_version_def split: prod.splits)

text \<open>
  C6, as the code has it. \<^verbatim>\<open>update_sync_version\<close> always returns, with the new version in
  memory. The state file holds the new state when the write succeeds; when \<^verbatim>\<open>open\<close> raises it
  keeps its old content, and when \<^verbatim>\<open>json.dump\<close> raises it is left unreadable. The failure is
  logged only: whether a pass reports success does not depend on how the write goes.
\<close>

theorem update_sync_version_write_outcome:
  "state_file (update_sync_version sm t v now) =
     (case next_write sm of
        Write_Ok \<Rightarrow> Document (state (update_sync_version sm t v now))
      | Open_Raises \<Rightarrow> state_file sm
      | Dump_Raises \<Rightarrow> Unreadable) \<and>
   get_last_sync_version (update_sync_version sm t v now) t = v \<and>
   fst (replicate_table src b now bq (sm\<lparr>next_write := w\<rparr>) t) =
     fst (replicate_table src b now bq sm t)"
  by (simp add: replicate_table_ignores_write get_last_sync_version_update)
     (simp add: update_sync_version_def save_state_def Let_def split: write_outcome.splits)

text \<open>
  C6 as stated fails: the file cannot be opened for writing, the pass still reports success,
  and the file keeps checkpoint 50 although version 55 was applied.
\<close>

theorem failed_write_reported_as_success:
  "fst (replicate_table (orders_source 55 [''id''] [7]) 1000 ''t1''
       (warehouse [''orders'' \<mapsto> orders_table [7]] False)
       (StateManager (checkpoint 50) Open_Raises) ''orders'') \<and>
   state_file (snd (snd (replicate_table (orders_source 55 [''id''] [7]) 1000 ''t1''
       (warehouse [''orders'' \<mapsto> orders_table [7]] False)
       (StateManager (checkpoint 50) Open_Raises) ''orders''))) = checkpoint 50"
proof -
  have v: "get_last_sync_version (StateManager (checkpoint 50) Open_Raises) ''orders'' = 50"
    by (simp add: example_simps get_last_sync_version_def)
  have r: "replicate_table (orders_source 55 [''id''] [7]) 1000 ''t1''
       (warehouse [''orders'' \<mapsto> orders_table [7]] False)
       (StateManager (checkpoint 50) Open_Raises) ''orders''
     = (True, warehouse [''orders'' \<mapsto> orders_table [7]] False,
        update_sync_version (StateManager (checkpoint 50) Open_Raises) ''orders'' 55 ''t1'')"
    using v by (simp add: replicate_table_def incremental_sync_def get_changed_data_def
        source_simps orders_source_def warehouse_def table_exists_def)
  show ?thesis
    unfolding r by (simp add: update_sync_version_def save_state_def StateManager_def Let_def)
qed

subsection \<open>A table without a primary key\<close>

lemma missing_key_fails_pass:
  assumes "is_change_tracking_enabled src t"
    and "get_primary_key_columns src t = []"
    and "get_last_sync_version sm t < get_change_tracking_current_version src"
    and "table_exists bq t"
  shows "replicate_table src b now bq sm t = (False, bq, sm)"
  using assms by (simp add: get_changed_data_def replicate_table_def incremental_sync_def Let_def)

lemma missing_key_fails_run:
  assumes "is_change_tracking_enabled src t"
    and "get_primary_key_columns src t = []"
    and "t \<noteq> []"
  shows "t \<in> set (map strip names) \<Longrightarrow> table_exists bq t \<Longrightarrow>
    get_last_sync_version sm t < get_change_tracking_current_version src \<Longrightarrow>
    fst (replicate_each src b now names success bq sm) = False"
proof (induction names arbitrary: success bq sm)
  case Nil
  then show ?case by simp
next
  case (Cons n names)
  show ?case
  proof (cases "strip n = t")
    case True
    then show ?thesis
      using assms Cons.prems missing_key_fails_pass [OF assms(1,2) Cons.prems(3,2), of b now]
      by (simp add: Let_def replicate_each_failed)
  next
    case False
    with Cons.prems have mem: "t \<in> set (map strip names)" by auto
    show ?thesis
    proof (cases "strip n = []")
      case True
      then show ?thesis using Cons.IH [OF mem Cons.prems(2,3)] by (simp add: Let_def)
    next
      case ne: False
      obtain ok bq' sm' where r: "replicate_table src b now bq sm (strip n) = (ok, bq', sm')"
        by (metis prod_cases3)
      note o = replicate_table_other [OF False r]
      have "table_exists bq' t" using o Cons.prems(2) by (simp add: table_exists_def)
      moreover have "get_last_sync_version sm' t < get_change_tracking_current_version src"
        using o Cons.prems(3) by (simp add: get_last_sync_version_def)
      ultimately show ?thesis using Cons.IH [OF mem] r ne by (simp add: Let_def)
    qed
  qed
qed

lemma strip_orders: "strip '' orders'' = ''orders''"
  by (simp add: strip_def isspace_def)

text \<open>
  C4, as the code has it. For a table with change tracking enabled and no primary key,
  \<^verbatim>\<open>get_changed_data\<close> reports failure whenever the current version of the feed is above the
  watermark passed. In a pass over such a table that exists in the target and whose stored
  version is that watermark, the table fails and nothing changes, and a run whose table list
  names the table reports failure.
\<close>

theorem missing_primary_key_fails_when_feed_ahead:
  assumes "is_change_tracking_enabled src t"
    and "get_primary_key_columns src t = []"
    and "since < get_change_tracking_current_version src"
    and "table_exists bq t"
    and "get_last_sync_version sm t = since"
    and "t \<noteq> []" and "t \<in> set (map strip names)"
  shows "get_changed_data src t since = ([], [], 0) \<and>
         replicate_table src b now bq sm t = (False, bq, sm) \<and>
         fst (replicate_all_tables names src b now bq sm) = False"
proof -
  have lt: "get_last_sync_version sm t < get_change_tracking_current_version src"
    using assms(3,5) by simp
  have "get_changed_data src t since = ([], [], 0)"
    using assms(1-3) by (simp add: get_changed_data_def Let_def)
  moreover note missing_key_fails_pass [OF assms(1,2) lt assms(4)]
  moreover have "fst (replicate_all_tables names src b now bq sm) = False"
    unfolding replicate_all_tables_def
    by (rule missing_key_fails_run [OF assms(1,2,6,7,4) lt])
  ultimately show ?thesis by simp
qed

theorem missing_primary_key_fails_when_feed_ahead_witness:
  "is_change_tracking_enabled (orders_source 55 [] [7]) ''orders'' \<and>
   get_primary_key_columns (orders_source 55 [] [7]) ''orders'' = [] \<and>
   50 < get_change_tracking_current_version (orders_source 55 [] [7]) \<and>
   table_exists (warehouse [''orders'' \<mapsto> orders_table [7]] False) ''orders'' \<and>
   get_last_sync_version (StateManager (checkpoint 50) Write_Ok) ''orders'' = 50 \<and>
   ''orders'' \<noteq> [] \<and> ''orders'' \<in> set (map strip [''customers'', '' orders'']) \<and>
   get_changed_data (orders_source 55 [] [7]) ''orders'' 50 = ([], [], 0) \<and>
   replicate_table (orders_source 55 [] [7]) 1000 ''t1''
       (warehouse [''orders'' \<mapsto> orders_table [7]] False)
       (StateManager (checkpoint 50) Write_Ok) ''orders''
     = (False, warehouse [''orders'' \<mapsto> orders_table [7]] False,
        StateManager (checkpoint 50) Write_Ok) \<and>
   fst (replicate_all_tables [''customers'', '' orders''] (orders_source 55 [] [7]) 1000 ''t1''
       (warehouse [''orders'' \<mapsto> orders_table [7]] False)
       (StateManager (checkpoint 50) Write_Ok)) = False"
proof -
  have h: "is_change_tracking_enabled (orders_source 55 [] [7]) ''orders''"
    "get_primary_key_columns (orders_source 55 [] [7]) ''orders'' = []"
    "50 < get_change_tracking_current_version (orders_source 55 [] [7])"
    "table_exists (warehouse [''orders'' \<mapsto> orders_table [7]] False) ''orders''"
    "get_last_sync_version (StateManager (checkpoint 50) Write_Ok) ''orders'' = 50"
    "''orders'' \<noteq> []" "''orders'' \<in> set (map strip [''customers'', '' orders''])"
    by (simp_all add: source_simps example_simps table_exists_def get_last_sync_version_def
        strip_orders)
  from missing_primary_key_fails_when_feed_ahead [OF h, of 1000 "''t1''"] h
  show ?thesis by simp
qed

text \<open>
  C4 as stated fails when the feed is not ahead of the watermark: with no primary key,
  current version 50 and watermark 50, the call returns an empty change set with version 50
  and the pass over the table succeeds.
\<close>

theorem missing_primary_key_noop_succeeds:
  "is_change_tracking_enabled (orders_source 50 [] []) ''orders'' \<and>
   get_primary_key_columns (orders_source 50 [] []) ''orders'' = [] \<and>
   get_changed_data (orders_source 50 [] []) ''orders'' 50 = ([], [], 50) \<and>
   fst (replicate_table (orders_source 50 [] []) 1000 ''t1''
          (warehouse [''orders'' \<mapsto> orders_table []] False)
          (StateManager (checkpoint 50) Write_Ok) ''orders'')"
  by (simp add: replicate_table_def incremental_sync_def get_changed_data_def source_simps
      example_simps table_exists_def get_last_sync_version_def)

subsection \<open>A pass with nothing to do\<close>

text \<open>
  When the current version of the feed equals the stored version and is not 0, an
  incremental pass (change tracking enabled, schema fetched, target table there) gets an
  empty change set with that version, leaves the warehouse as it is, writes the same version
  to the checkpoint and reports success.
\<close>

theorem noop_pass_at_nonzero_version:
  assumes "is_change_tracking_enabled src t"
    and "get_table_schema src t \<noteq> []"
    and "table_exists bq t"
    and "get_change_tracking_current_version src = get_last_sync_version sm t"
    and "get_last_sync_version sm t \<noteq> 0"
  shows "get_changed_data src t (get_last_sync_version sm t)
           = ([], [], get_last_sync_version sm t) \<and>
         replicate_table src b now bq sm t =
           (True, bq, update_sync_version sm t (get_last_sync_version sm t) now) \<and>
         get_last_sync_version (update_sync_version sm t (get_last_sync_version sm t) now) t =
           get_last_sync_version sm t"
  using assms
  by (simp add: get_changed_data_def replicate_table_def incremental_sync_def Let_def
      get_last_sync_version_update)

theorem noop_pass_at_nonzero_version_witness:
  "is_change_tracking_enabled (orders_source 50 [''id''] [7]) ''orders'' \<and>
   get_table_schema (orders_source 50 [''id''] [7]) ''orders'' \<noteq> [] \<and>
   table_exists (warehouse [''orders'' \<mapsto> orders_table [7]] False) ''orders'' \<and>
   get_change_tracking_current_version (orders_source 50 [''id''] [7]) =
     get_last_sync_version (StateManager (checkpoint 50) Write_Ok) ''orders'' \<and>
   get_last_sync_version (StateManager (checkpoint 50) Write_Ok) ''orders'' \<noteq> 0 \<and>
   get_changed_data (orders_source 50 [''id''] [7]) ''orders'' 50 = ([], [], 50) \<and>
   replicate_table (orders_source 50 [''id''] [7]) 1000 ''t1''
       (warehouse [''orders'' \<mapsto> orders_table [7]] False)
       (StateManager (checkpoint 50) Write_Ok) ''orders''
     = (True, warehouse [''orders'' \<mapsto> orders_table [7]] False,
        update_sync_version (StateManager (checkpoint 50) Write_Ok) ''orders'' 50 ''t1'') \<and>
   get_last_sync_version
     (update_sync_version (StateManager (checkpoint 50) Write_Ok) ''orders'' 50 ''t1'') ''orders''
     = 50"
proof -
  have h: "is_change_tracking_enabled (orders_source 50 [''id''] [7]) ''orders''"
    "get_table_schema (orders_source 50 [''id''] [7]) ''orders'' \<noteq> []"
    "table_exists (warehouse [''orders'' \<mapsto> orders_table [7]] False) ''orders''"
    "get_change_tracking_current_version (orders_source 50 [''id''] [7]) =
       get_last_sync_version (StateManager (checkpoint 50) Write_Ok) ''orders''"
    "get_last_sync_version (StateManager (checkpoint 50) Write_Ok) ''orders'' \<noteq> 0"
    by (simp_all add: source_simps example_simps table_exists_def get_last_sync_version_def)
  have v: "get_last_sync_version (StateManager (checkpoint 50) Write_Ok) ''orders'' = 50"
    by (simp add: example_simps get_last_sync_version_def)
  from noop_pass_at_nonzero_version [OF h, of 1000 "''t1''"] h show ?thesis
    unfolding v by simp
qed

text \<open>
  C5 on the code: a pass at a current version equal to the stored version should get an
  empty change set, leave target and checkpoint as they are and report success. At version
  0, the version of a feed that has recorded no change yet, it does not. The first pass over
  the empty table \<^verbatim>\<open>orders\<close> creates the target table and its initial-load branch writes
  checkpoint 0. In the next pass \<^verbatim>\<open>get_changed_data\<close> finds nothing new and returns the empty
  change set with version 0, and \<^verbatim>\<open>replicate_table\<close> takes that 0 for the failure marker: the
  table fails, and keeps failing while the feed stays at 0.
\<close>

theorem noop_pass_at_version_zero_fails:
  "is_change_tracking_enabled (orders_source 0 [''id''] []) ''orders'' \<and>
   table_exists (warehouse [''orders'' \<mapsto> orders_table []] False) ''orders'' \<and>
   get_change_tracking_current_version (orders_source 0 [''id''] []) =
     get_last_sync_version (StateManager (checkpoint 0) Write_Ok) ''orders'' \<and>
   \<not> fst (replicate_table (orders_source 0 [''id''] []) 1000 ''t1''
          (warehouse [''orders'' \<mapsto> orders_table []] False)
          (StateManager (checkpoint 0) Write_Ok) ''orders'') \<and>
   replicate_table (orders_source 0 [''id''] []) 1000 ''t1'' (warehouse Map.empty False)
       (StateManager Missing Write_Ok) ''orders''
     = (True, warehouse [''orders'' \<mapsto> orders_table []] False,
        update_sync_version (StateManager Missing Write_Ok) ''orders'' 0 ''t1'') \<and>
   get_last_sync_version
     (update_sync_version (StateManager Missing Write_Ok) ''orders'' 0 ''t1'') ''orders'' = 0 \<and>
   get_changed_data (orders_source 0 [''id''] []) ''orders'' 0 = ([], [], 0) \<and>
   replicate_table (orders_source 0 [''id''] []) 1000 ''t2''
       (warehouse [''orders'' \<mapsto> orders_table []] False)
       (update_sync_version (StateManager Missing Write_Ok) ''orders'' 0 ''t1'') ''orders''
     = (False, warehouse [''orders'' \<mapsto> orders_table []] False,
        update_sync_version (StateManager Missing Write_Ok) ''orders'' 0 ''t1'')"
proof -
  have stored: "is_change_tracking_enabled (orders_source 0 [''id''] []) ''orders'' \<and>
   table_exists (warehouse [''orders'' \<mapsto> orders_table []] False) ''orders'' \<and>
   get_change_tracking_current_version (orders_source 0 [''id''] []) =
     get_last_sync_version (StateManager (checkpoint 0) Write_Ok) ''orders'' \<and>
   \<not> fst (replicate_table (orders_source 0 [''id''] []) 1000 ''t1''
          (warehouse [''orders'' \<mapsto> orders_table []] False)
          (StateManager (checkpoint 0) Write_Ok) ''orders'')"
    by (simp add: replicate_table_def incremental_sync_def get_changed_data_def source_simps
      example_simps table_exists_def get_last_sync_version_def)
  have first: "replicate_table (orders_source 0 [''id''] []) 1000 ''t1'' (warehouse Map.empty False)
       (StateManager Missing Write_Ok) ''orders''
     = (True, warehouse [''orders'' \<mapsto> orders_table []] False,
        update_sync_version (StateManager Missing Write_Ok) ''orders'' 0 ''t1'')"
    by (simp add: replicate_table_def initial_load_def create_table_def get_all_data_def
        mark_primary_keys_def source_simps orders_source_def warehouse_def orders_table_def
        table_exists_def Let_def convert_schema_def convert_type_def lower_def lower_char_def)
  have g: "get_changed_data (orders_source 0 [''id''] []) ''orders'' 0 = ([], [], 0)"
    by (simp add: get_changed_data_def source_simps orders_source_def)
  have second: "replicate_table (orders_source 0 [''id''] []) 1000 ''t2''
       (warehouse [''orders'' \<mapsto> orders_table []] False)
       (update_sync_version (StateManager Missing Write_Ok) ''orders'' 0 ''t1'') ''orders''
     = (False, warehouse [''orders'' \<mapsto> orders_table []] False,
        update_sync_version (StateManager Missing Write_Ok) ''orders'' 0 ''t1'')"
    using g
    by (simp add: replicate_table_def incremental_sync_def get_last_sync_version_update
        is_change_tracking_enabled_def get_table_schema_def orders_source_def warehouse_def
        table_exists_def)
  from stored first g second show ?thesis by (simp add: get_last_sync_version_update)
qed

subsection \<open>A load that fails after the target table was created\<close>





subsection \<open>Clustering fields of a created table\<close>

text \<open>The names of the flagged columns are the column names that occur in the primary key.\<close>

lemma flagged_names:
  "map name (filter is_primary_key (mark_primary_keys (get_table_schema src t) pk)) =
   filter (\<lambda>n. n \<in> set pk) (map name (get_table_schema src t))"
  by (induction "schema_rows src t")
     (auto simp: mark_primary_keys_def get_table_schema_def filter_map comp_def
       intro!: filter_cong arg_cong [where f = "map _"] split: prod.splits)

lemma create_table_clustering:
  assumes "create_table bq t cols = (True, bq')"
  shows "\<exists>tb. tables bq' t = Some tb \<and> table_data tb = [] \<and>
           clustering_fields tb =
             (if map name (filter is_primary_key cols) = [] then None
              else Some (take 4 (map name (filter is_primary_key cols))))"
  using assms by (auto simp: create_table_def Let_def split: if_splits)

lemma load_dataframe_clustering:
  assumes "load_dataframe bq df t d = (ok, bq')" and "tables bq t = Some tb"
  shows "\<exists>tb'. tables bq' t = Some tb' \<and> clustering_fields tb' = clustering_fields tb"
  using assms by (auto simp: load_dataframe_def Let_def split: if_splits)

lemma initial_load_clustering:
  assumes "tables bq t = None"
    and "initial_load src b now bq sm t cols = (ok, bq', sm')"
    and "tables bq' t = Some tb"
  shows "clustering_fields tb =
           (if map name (filter is_primary_key cols) = [] then None
            else Some (take 4 (map name (filter is_primary_key cols))))"
proof -
  obtain created bq1 where c: "create_table bq t cols = (created, bq1)" by force
  show ?thesis
  proof (cases created)
    case False
    then have "bq' = bq"
      using assms(2) c by (simp add: initial_load_def create_table_def Let_def split: if_splits)
    then show ?thesis using assms(1,3) by simp
  next
    case True
    have c': "create_table bq t cols = (True, bq1)" using c True by simp
    from create_table_clustering [OF c']
    obtain tb1 where tb1: "tables bq1 t = Some tb1"
        "clustering_fields tb1 =
           (if map name (filter is_primary_key cols) = [] then None
            else Some (take 4 (map name (filter is_primary_key cols))))" by blast
    show ?thesis
    proof (cases "get_all_data src t b = []")
      case e: True
      then have "bq' = bq1" using assms(2) c True by (simp add: initial_load_def Let_def)
      then show ?thesis using tb1 assms(3) by simp
    next
      case ne: False
      obtain loaded bq2 where l:
        "load_dataframe bq1 (get_all_data src t b) t WRITE_TRUNCATE = (loaded, bq2)" by force
      have "bq' = bq2"
        using assms(2) c True ne l by (simp add: initial_load_def Let_def split: if_splits)
      then show ?thesis using load_dataframe_clustering [OF l tb1(1)] tb1(2) assms(3) by auto
    qed
  qed
qed

text \<open>
  C8, as the code has it. A table that a pass creates in the target gets as clustering
  fields the first four, at most, of the schema columns whose name occurs in the primary
  key, in the column order of the source schema; when no column does, the clustering fields
  stay unset.
\<close>

theorem clustering_fields_in_column_order:
  assumes "tables bq t = None"
    and "tables (fst (snd (replicate_table src b now bq sm t))) t = Some tb"
  shows "clustering_fields tb =
           (if filter (\<lambda>n. n \<in> set (get_primary_key_columns src t))
                 (map name (get_table_schema src t)) = [] then None
            else Some (take 4 (filter (\<lambda>n. n \<in> set (get_primary_key_columns src t))
                                 (map name (get_table_schema src t)))))"
proof -
  let ?cols = "mark_primary_keys (get_table_schema src t) (get_primary_key_columns src t)"
  have ne: "replicate_table src b now bq sm t = initial_load src b now bq sm t ?cols"
    using assms by (auto simp: replicate_table_def Let_def table_exists_def)
  obtain ok bq' sm' where r: "initial_load src b now bq sm t ?cols = (ok, bq', sm')"
    by (metis prod_cases3)
  have "tables bq' t = Some tb" using assms(2) ne r by simp
  from initial_load_clustering [OF assms(1) r this] show ?thesis
    by (simp only: flagged_names)
qed

theorem clustering_fields_in_column_order_witness:
  "tables (warehouse Map.empty False) ''pairs'' = None \<and>
   tables (fst (snd (replicate_table pairs_source 1000 ''t1'' (warehouse Map.empty False)
                          (StateManager Missing Write_Ok) ''pairs''))) ''pairs''
     = Some \<lparr>schema = [\<lparr>field_name = ''a'', field_type = INTEGER, mode = REQUIRED\<rparr>,
                        \<lparr>field_name = ''b'', field_type = INTEGER, mode = REQUIRED\<rparr>],
             clustering_fields = Some [''a'', ''b''], table_data = []\<rparr> \<and>
   clustering_fields
       \<lparr>schema = [\<lparr>field_name = ''a'', field_type = INTEGER, mode = REQUIRED\<rparr>,
                  \<lparr>field_name = ''b'', field_type = INTEGER, mode = REQUIRED\<rparr>],
        clustering_fields = Some [''a'', ''b''], table_data = ([]::nat list)\<rparr> =
     (if filter (\<lambda>n. n \<in> set (get_primary_key_columns pairs_source ''pairs''))
           (map name (get_table_schema pairs_source ''pairs'')) = [] then None
      else Some (take 4 (filter (\<lambda>n. n \<in> set (get_primary_key_columns pairs_source ''pairs''))
                           (map name (get_table_schema pairs_source ''pairs'')))))"
proof -
  have h1: "tables (warehouse Map.empty False) ''pairs'' = None" by (simp add: warehouse_def)
  have h2: "tables (fst (snd (replicate_table pairs_source 1000 ''t1'' (warehouse Map.empty False)
                          (StateManager Missing Write_Ok) ''pairs''))) ''pairs''
     = Some \<lparr>schema = [\<lparr>field_name = ''a'', field_type = INTEGER, mode = REQUIRED\<rparr>,
                        \<lparr>field_name = ''b'', field_type = INTEGER, mode = REQUIRED\<rparr>],
             clustering_fields = Some [''a'', ''b''], table_data = []\<rparr>"
    by (simp add: replicate_table_def initial_load_def create_table_def get_all_data_def
      mark_primary_keys_def source_simps pairs_source_def warehouse_def table_exists_def Let_def
      convert_schema_def convert_type_def lower_def lower_char_def)
  from clustering_fields_in_column_order [OF h1 h2] h1 h2 show ?thesis by blast
qed

text \<open>
  C8 as stated fails: for the primary key \<^verbatim>\<open>(b, a)\<close> over the columns \<^verbatim>\<open>a, b\<close> the created table
  is clustered by \<^verbatim>\<open>a, b\<close>, the column order, not by \<^verbatim>\<open>b, a\<close>, the key order.
\<close>

theorem clustering_not_in_key_order:
  "get_primary_key_columns pairs_source ''pairs'' = [''b'', ''a''] \<and>
   map_option clustering_fields
     (tables (fst (snd (replicate_table pairs_source 1000 ''t1'' (warehouse Map.empty False)
                          (StateManager Missing Write_Ok) ''pairs''))) ''pairs'')
     = Some (Some [''a'', ''b''])"
  by (simp add: replicate_table_def initial_load_def create_table_def get_all_data_def
      mark_primary_keys_def source_simps pairs_source_def warehouse_def table_exists_def Let_def)

section \<open>The entry point\<close>

text \<open>\<^verbatim>\<open>split\<close> never returns the empty list, so the check for an empty table list never fires.\<close>

lemma split_comma_not_empty: "split_comma s \<noteq> []"
  by (induction s) (auto split: list.splits)

lemma table_list_never_empty: "TABLES_TO_REPLICATE cfg \<noteq> []"
  by (simp add: TABLES_TO_REPLICATE_def split_comma_not_empty)

text \<open>
  C7 on the code. With the variable \<^verbatim>\<open>TABLES_TO_REPLICATE\<close> unset, the table list is the
  list of one empty name. The run passes the check for an empty list, connects to the source
  and the target, skips the empty name, and ends with exit code 0.
\<close>

theorem main_with_no_tables_listed:
  "TABLES_TO_REPLICATE (example_config None) = [[]] \<and>
   main (example_config None) (orders_source 5 [''id''] [1, 2, 3]) (warehouse Map.empty True)
        Missing Write_Ok ''t1''
     = (0, [Sql_Connect, Bq_Connect, Sql_Close, Bq_Close], warehouse Map.empty True, Missing)"
  by (simp add: main_def TABLES_TO_REPLICATE_def example_config_def unset_def
      replicate_all_tables_def strip_def StateManager_def orders_source_def warehouse_def)

section \<open>A run on an unreadable state file\<close>









end
